theory Spec2Isabelle
  imports Main "HOL-Library.Word"
begin

section \<open>The editable input item of LcdMenu (src/src/ItemInput.h)\<close>

text \<open>
  \<^verbatim>\<open>ItemInput\<close> is a menu item with a label (\<^verbatim>\<open>text\<close>, inherited from
  \<^verbatim>\<open>MenuItem\<close>), a C string \<^verbatim>\<open>value\<close>, and two \<^verbatim>\<open>uint8_t\<close> positions
  \<^verbatim>\<open>view\<close> and \<^verbatim>\<open>cursor\<close>. It talks to a \<^verbatim>\<open>DisplayInterface\<close> that owns the
  column count, the edit-mode flag and the blinker position.

  The embedding is by explicit state passing. One record holds the fields of the item
  and of the display the item is drawn on, together with the list of the effects the
  item has caused so far (display calls and callback invocations, oldest first), so that
  the order of effects can be stated. Every member function of the source takes the
  record and returns the \<^verbatim>\<open>bool\<close> it returns in C++ together with the new record.
  \<^verbatim>\<open>typeChar\<close> can write past the end of the buffer it allocates; that outcome is an
  error value, so \<^verbatim>\<open>typeChar\<close> and \<^verbatim>\<open>process\<close>, which calls it, return
  \<open>error + bool \<times> menu\<close>.

  \<^verbatim>\<open>uint8_t\<close> is \<open>8 word\<close>. Where the source computes in \<^verbatim>\<open>int\<close> or
  \<^verbatim>\<open>size_t\<close> and stores the result in a \<^verbatim>\<open>uint8_t\<close>, the model computes in
  \<open>8 word\<close> (truncation commutes with \<open>+\<close> and \<open>-\<close>). Where the source
  \<^emph>\<open>compares\<close> a promoted expression without storing it, the model compares the
  integers (\<open>uint\<close>, \<open>unat\<close>), as C does.

  \<^verbatim>\<open>printLog\<close> (diagnostics, compiled out unless debugging) is not modelled.
\<close>

type_synonym u8 = "8 word"

subsection \<open>Control codes (src/src/utils/constants.h)\<close>

definition BACKSPACE :: char where "BACKSPACE = char_of (8::nat)"
definition ENTER :: char where "ENTER = char_of (10::nat)"
definition BACK :: char where "BACK = char_of (27::nat)"
definition UP :: char where "UP = char_of (128::nat)"
definition DOWN :: char where "DOWN = char_of (129::nat)"
definition RIGHT :: char where "RIGHT = char_of (130::nat)"
definition LEFT :: char where "LEFT = char_of (131::nat)"
definition CLEAR :: char where "CLEAR = char_of (132::nat)"

subsection \<open>State\<close>

text \<open>
  The effects of one call, in program order. \<open>DrawItem\<close> is
  \<^verbatim>\<open>display->drawItem(row, text, ':', buf)\<close> without the row, which the absent
  \<^verbatim>\<open>MenuItem::draw(display)\<close> chooses. \<open>Callback f v\<close> is the call \<^verbatim>\<open>callback(value)\<close>
  of the function pointer \<open>f\<close>.
\<close>

datatype event =
    ClearBlinker
  | SetEditModeEnabled bool
  | DrawItem string char string
  | ResetBlinker u8
  | DrawBlinker
  | Callback nat string

text \<open>
  Item fields: \<open>itemText\<close> is \<^verbatim>\<open>text\<close>, \<open>itemValue\<close> is \<^verbatim>\<open>value\<close> (both names
  are Isabelle keywords), \<open>callback\<close> is \<open>None\<close> for \<^verbatim>\<open>NULL\<close> and \<open>Some f\<close>
  for the function pointer \<open>f\<close>. Display fields: \<open>maxCols\<close>, \<open>editModeEnabled\<close>,
  \<open>blinkerPosition\<close>.
\<close>

record menu =
  itemText :: string
  itemValue :: string
  view :: u8
  cursor :: u8
  callback :: "nat option"
  maxCols :: u8
  editModeEnabled :: bool
  blinkerPosition :: u8
  effects :: "event list"

subsection \<open>The display and the string helpers\<close>

text \<open>
  Modelled from the spec: the \<^verbatim>\<open>DisplayInterface\<close> class is not among the sources.
  The spec (section 2) says the display "exposes a fixed visible column count, draws a
  labeled row of text, and exposes/controls a single caret (blinker) cursor with
  get/set/show/hide operations and an edit-mode flag". Each call is recorded in
  \<open>effects\<close>; the setters store their argument.
\<close>

definition emit :: "event \<Rightarrow> menu \<Rightarrow> menu" where
  "emit e m = m\<lparr>effects := effects m @ [e]\<rparr>"

definition setEditModeEnabled :: "bool \<Rightarrow> menu \<Rightarrow> menu" where
  "setEditModeEnabled b m = emit (SetEditModeEnabled b) (m\<lparr>editModeEnabled := b\<rparr>)"

definition resetBlinker :: "u8 \<Rightarrow> menu \<Rightarrow> menu" where
  "resetBlinker p m = emit (ResetBlinker p) (m\<lparr>blinkerPosition := p\<rparr>)"

definition drawBlinker :: "menu \<Rightarrow> menu" where
  "drawBlinker m = emit DrawBlinker m"

definition clearBlinker :: "menu \<Rightarrow> menu" where
  "clearBlinker m = emit ClearBlinker m"

text \<open>
  Modelled from the spec: \<^verbatim>\<open>substring\<close>, \<^verbatim>\<open>concat\<close> and \<^verbatim>\<open>remove\<close> come from
  \<^verbatim>\<open>utils/utils.h\<close>, which is not among the sources. The spec has "a substring of
  Value of length VisibleWidth starting at View Offset", "inserts ch at Cursor, shifting
  subsequent characters right" and "removes the character immediately before Cursor,
  shifts the remainder left". Past the end of the string the C functions read memory
  that is not theirs; the model returns what \<open>take\<close> and \<open>drop\<close> return there.
\<close>

definition substring :: "string \<Rightarrow> nat \<Rightarrow> nat \<Rightarrow> string" where
  "substring str start sz = take sz (drop start str)"

definition concat2 :: "string \<Rightarrow> char \<Rightarrow> string" where
  "concat2 first second = first @ [second]"

definition concat3 :: "string \<Rightarrow> char \<Rightarrow> string \<Rightarrow> string" where
  "concat3 first second third = first @ [second] @ third"

definition remove :: "string \<Rightarrow> nat \<Rightarrow> nat \<Rightarrow> string" where
  "remove str index count = take index str @ drop (index + count) str"

text \<open>
  Modelled from the spec: \<^verbatim>\<open>constrain\<close> is the Arduino core's macro
  \<^verbatim>\<open>((amt)<(low)?(low):((amt)>(high)?(high):(amt)))\<close>, the spec's "clamped to". The
  lower bound is tested first, which decides the result when \<open>high < low\<close>.
\<close>

definition constrain :: "int \<Rightarrow> int \<Rightarrow> int \<Rightarrow> int" where
  "constrain amt low high = (if amt < low then low else if amt > high then high else amt)"

text \<open>
  Modelled from the spec: \<^verbatim>\<open>isprint\<close> of the C library in the "C" locale, the
  spec's "printable character": the codes 32 to 126.
\<close>

definition isprint :: "char \<Rightarrow> bool" where
  "isprint c = (32 \<le> (of_char c :: nat) \<and> (of_char c :: nat) \<le> 126)"

subsection \<open>ItemInput\<close>

text \<open>
  \<^verbatim>\<open>getViewSize\<close>: \<^verbatim>\<open>display->getMaxCols() - (strlen(text) + 2) - 1\<close>, computed in
  \<^verbatim>\<open>size_t\<close> and returned as \<^verbatim>\<open>uint8_t\<close>.
\<close>

definition getViewSize :: "menu \<Rightarrow> u8" where
  "getViewSize m = maxCols m - (of_nat (length (itemText m)) + 2) - 1"

text \<open>
  \<^verbatim>\<open>constrainBlinkerPosition\<close>. \<^verbatim>\<open>lb\<close> and the first \<^verbatim>\<open>ub\<close> are truncated to
  \<^verbatim>\<open>uint8_t\<close>; \<^verbatim>\<open>maxCols - 2\<close> is an \<^verbatim>\<open>int\<close> (negative when \<^verbatim>\<open>maxCols < 2\<close>); the
  result of the first \<^verbatim>\<open>constrain\<close> is stored in a \<^verbatim>\<open>uint8_t\<close> again.
\<close>

definition constrainBlinkerPosition :: "menu \<Rightarrow> u8 \<Rightarrow> u8" where
  "constrainBlinkerPosition m blinkerPos =
    (let lb = (of_nat (length (itemText m)) + 2 :: u8);
         ub0 = (lb + of_nat (length (itemValue m)) :: u8);
         ub = (word_of_int (constrain (uint ub0) (uint lb) (uint (maxCols m) - 2)) :: u8)
     in word_of_int (constrain (uint blinkerPos) (uint lb) (uint ub)))"

text \<open>
  \<^verbatim>\<open>draw(display, row)\<close>: the slice of the value from \<^verbatim>\<open>view\<close>, at most
  \<^verbatim>\<open>getViewSize\<close> characters, drawn after the label and a colon.

  Modelled from the spec: \<^verbatim>\<open>MenuItem::draw(display)\<close> of the absent base class
  \<^verbatim>\<open>MenuItem\<close> is the "redraw" of the spec; it calls the virtual
  \<^verbatim>\<open>draw(display, row)\<close> on the row of the item.
\<close>

definition draw :: "menu \<Rightarrow> menu" where
  "draw m = emit (DrawItem (itemText m) (CHR '':'')
                   (substring (itemValue m) (unat (view m)) (unat (getViewSize m)))) m"

definition MenuItem_draw :: "menu \<Rightarrow> menu" where
  "MenuItem_draw m = draw m"

definition enter :: "menu \<Rightarrow> bool \<times> menu" where
  "enter m =
    (if editModeEnabled m then (False, m)
     else
       let len = (of_nat (length (itemValue m)) :: u8);
           m1 = m\<lparr>cursor := len\<rparr>;
           viewSize = getViewSize m1;
           m2 = (if cursor m1 > viewSize then m1\<lparr>view := len - (viewSize - 1)\<rparr> else m1);
           m3 = MenuItem_draw m2;
           m4 = setEditModeEnabled True m3;
           m5 = resetBlinker
                  (constrainBlinkerPosition m4
                     (of_nat (length (itemText m4)) + 2 + cursor m4 - view m4)) m4;
           m6 = drawBlinker m5
       in (True, m6))"

text \<open>\<^verbatim>\<open>back\<close> (the name is an Isabelle keyword).\<close>

definition backCmd :: "menu \<Rightarrow> bool \<times> menu" where
  "backCmd m =
    (if \<not> editModeEnabled m then (False, m)
     else
       let m1 = clearBlinker m;
           m2 = setEditModeEnabled False m1;
           m3 = m2\<lparr>cursor := 0\<rparr>;
           m4 = m3\<lparr>view := 0\<rparr>;
           m5 = MenuItem_draw m4;
           m6 = (case callback m5 of
                   None \<Rightarrow> m5
                 | Some f \<Rightarrow> emit (Callback f (itemValue m5)) m5)
       in (True, m6))"

definition left :: "menu \<Rightarrow> bool \<times> menu" where
  "left m =
    (if \<not> editModeEnabled m then (False, m)
     else if cursor m = 0 then (True, m)
     else
       let m1 = m\<lparr>cursor := cursor m - 1\<rparr>;
           m2 = (if cursor m1 < view m1 then MenuItem_draw (m1\<lparr>view := view m1 - 1\<rparr>) else m1);
           m3 = resetBlinker (constrainBlinkerPosition m2 (blinkerPosition m2 - 1)) m2
       in (True, m3))"

text \<open>
  In \<^verbatim>\<open>right\<close> and \<^verbatim>\<open>typeChar\<close> the test \<^verbatim>\<open>cursor > (view + viewSize - 1)\<close> is
  evaluated in \<^verbatim>\<open>int\<close>, and \<^verbatim>\<open>cursor == strlen(value)\<close> in \<^verbatim>\<open>size_t\<close>: neither
  side is truncated.
\<close>

definition right :: "menu \<Rightarrow> bool \<times> menu" where
  "right m =
    (if \<not> editModeEnabled m then (False, m)
     else if unat (cursor m) = length (itemValue m) then (True, m)
     else
       let m1 = m\<lparr>cursor := cursor m + 1\<rparr>;
           viewSize = getViewSize m1;
           m2 = (if uint (cursor m1) > uint (view m1) + uint viewSize - 1
                 then MenuItem_draw (m1\<lparr>view := view m1 + 1\<rparr>) else m1);
           m3 = resetBlinker (constrainBlinkerPosition m2 (blinkerPosition m2 + 1)) m2
       in (True, m3))"

definition backspace :: "menu \<Rightarrow> bool \<times> menu" where
  "backspace m =
    (if \<not> editModeEnabled m then (False, m)
     else if length (itemValue m) = 0 \<or> cursor m = 0 then (True, m)
     else
       let m1 = m\<lparr>itemValue := remove (itemValue m) (unat (cursor m) - 1) 1\<rparr>;
           m2 = m1\<lparr>cursor := cursor m1 - 1\<rparr>;
           m3 = (if cursor m2 < view m2 then m2\<lparr>view := view m2 - 1\<rparr> else m2);
           m4 = MenuItem_draw m3;
           m5 = resetBlinker (constrainBlinkerPosition m4 (blinkerPosition m4 - 1)) m4
       in (True, m5))"

text \<open>
  \<^verbatim>\<open>typeChar\<close>: \<^verbatim>\<open>uint8_t length = strlen(value)\<close> truncates the length, and the
  slices are taken with the truncated length. In the append branch the source allocates
  \<^verbatim>\<open>new char[length + 2]\<close> with the truncated length and \<^verbatim>\<open>concat\<close> writes the whole
  value, the character and the terminator, \<^verbatim>\<open>strlen(value) + 2\<close> bytes: for a value of
  256 characters or more that is a write past the end of the buffer, and the model
  returns \<open>HeapOverrun\<close>. In the insert branch \<^verbatim>\<open>joined\<close> has room for what is
  written.
\<close>

datatype error = HeapOverrun

definition typeChar :: "char \<Rightarrow> menu \<Rightarrow> error + bool \<times> menu" where
  "typeChar character m =
    (if \<not> editModeEnabled m then Inr (False, m)
     else
       let len = (of_nat (length (itemValue m)) :: u8);
           r = (if cursor m < len
                then
                  let startStr = substring (itemValue m) 0 (unat (cursor m));
                      endStr = substring (itemValue m) (unat (cursor m))
                                 (unat len - unat (cursor m))
                  in Inr (m\<lparr>itemValue := concat3 startStr character endStr\<rparr>)
                else if unat len + 2 < length (itemValue m) + 2 then Inl HeapOverrun
                else Inr (m\<lparr>itemValue := concat2 (itemValue m) character\<rparr>))
       in case r of
            Inl e \<Rightarrow> Inl e
          | Inr m1 \<Rightarrow>
              let m2 = m1\<lparr>cursor := cursor m1 + 1\<rparr>;
                  viewSize = getViewSize m2;
                  m3 = (if uint (cursor m2) > uint (view m2) + uint viewSize - 1
                        then m2\<lparr>view := view m2 + 1\<rparr> else m2);
                  m4 = MenuItem_draw m3;
                  m5 = resetBlinker (constrainBlinkerPosition m4 (blinkerPosition m4 + 1)) m4
              in Inr (True, m5))"

definition clear :: "menu \<Rightarrow> bool \<times> menu" where
  "clear m =
    (if \<not> editModeEnabled m then (False, m)
     else
       let m1 = m\<lparr>itemValue := []\<rparr>;
           m2 = MenuItem_draw m1;
           m3 = resetBlinker
                  (constrainBlinkerPosition m2 (of_nat (length (itemText m2)) + 2)) m2
       in (True, m3))"

definition process :: "char \<Rightarrow> menu \<Rightarrow> error + bool \<times> menu" where
  "process c m =
    (if isprint c then typeChar c m
     else if c = ENTER then Inr (enter m)
     else if c = BACK then Inr (backCmd m)
     else if c = UP then Inr (editModeEnabled m, m)
     else if c = DOWN then Inr (editModeEnabled m, m)
     else if c = LEFT then Inr (left m)
     else if c = RIGHT then Inr (right m)
     else if c = BACKSPACE then Inr (backspace m)
     else if c = CLEAR then Inr (clear m)
     else Inr (False, m))"

text \<open>
  The constructor \<^verbatim>\<open>ItemInput(text, value, callback)\<close> on a display of \<open>cols\<close>
  columns that is not in edit mode: \<^verbatim>\<open>view\<close> is initialised to 0, \<^verbatim>\<open>cursor\<close> is
  left uninitialised by the source and is a parameter here.
\<close>

definition ItemInput :: "string \<Rightarrow> string \<Rightarrow> nat option \<Rightarrow> u8 \<Rightarrow> u8 \<Rightarrow> menu" where
  "ItemInput txt val cb cols cur =
    \<lparr>itemText = txt, itemValue = val, view = 0, cursor = cur, callback = cb,
     maxCols = cols, editModeEnabled = False, blinkerPosition = 0, effects = []\<rparr>"

subsection \<open>Observations used by the properties\<close>

text \<open>The callback invocations among a list of effects, oldest first.\<close>

fun callbacks :: "event list \<Rightarrow> (nat \<times> string) list" where
  "callbacks [] = []"
| "callbacks (Callback f v # es) = (f, v) # callbacks es"
| "callbacks (_ # es) = callbacks es"

text \<open>
  The window condition of the source (the comment on \<^verbatim>\<open>cursor\<close>: "Always in range
  [view, view + viewSize - 1]"), on the integers.
\<close>

definition window_ok :: "menu \<Rightarrow> bool" where
  "window_ok m =
    (uint (view m) \<le> uint (cursor m) \<and>
     uint (cursor m) \<le> uint (view m) + uint (getViewSize m) - 1)"

text \<open>
  The invariant in the words of the specification (sections 3 and 8): the window
  condition, "unless \<open>length(Value) <= VisibleWidth\<close>, in which case
  \<open>View Offset == 0\<close>".
\<close>

definition spec_window_inv :: "menu \<Rightarrow> bool" where
  "spec_window_inv m =
    (if length (itemValue m) \<le> unat (getViewSize m) then view m = 0 else window_ok m)"

text \<open>
  The caret position in the words of the specification (section 4.3):
  \<open>label_len + 2 + (Cursor - ViewOffset)\<close>, clamped to
  \<open>[label_len + 2, min (label_len + 2 + len Value) (TotalColumns - 2)]\<close>, on the
  integers.
\<close>

definition spec_caret :: "menu \<Rightarrow> int" where
  "spec_caret m =
    (let lb = int (length (itemText m)) + 2;
         ub = min (lb + int (length (itemValue m))) (uint (maxCols m) - 2)
     in max lb (min ub (lb + (uint (cursor m) - uint (view m)))))"

subsection \<open>Concrete runs\<close>

text \<open>
  States reached by short command sequences on a display of 12 columns with the label
  \<open>''Name''\<close> (view size 5), used where a property is evaluated. \<open>projr\<close> takes the
  result out of \<open>Inr\<close>; no command of these runs ends in an error.
\<close>

definition entered_at_tail :: menu where
  "entered_at_tail = snd (projr (process ENTER (ItemInput ''Name'' ''ABCDEFG'' None 12 0)))"

definition entered_at_width :: menu where
  "entered_at_width = snd (projr (process ENTER (ItemInput ''Name'' ''ABCDE'' None 12 0)))"

definition typed_past_width :: menu where
  "typed_past_width = snd (projr (process (CHR ''F'') entered_at_width))"

definition shrunk_below_width :: menu where
  "shrunk_below_width =
    snd (projr (process BACKSPACE (snd (projr (process BACKSPACE
      (snd (projr (process ENTER (ItemInput ''Name'' ''ABCDEF'' None 12 0)))))))))"

definition long_value_moved :: menu where
  "long_value_moved =
    snd (projr (process LEFT (snd (projr (process ENTER
      (ItemInput ''Name'' (replicate 258 (CHR ''A'')) None 12 0))))))"

definition cleared_then_typed :: menu where
  "cleared_then_typed =
    snd (projr (process (CHR ''X'') (snd (projr (process CLEAR
      (snd (projr (process ENTER (ItemInput ''Name'' ''ABC'' None 12 0)))))))))"

section \<open>Auxiliary facts\<close>

lemmas display_defs = emit_def setEditModeEnabled_def resetBlinker_def drawBlinker_def
  clearBlinker_def draw_def MenuItem_draw_def

lemma callbacks_append: "callbacks (xs @ ys) = callbacks xs @ callbacks ys"
  by (induction xs rule: callbacks.induct) simp_all

subsection \<open>Eight-bit arithmetic\<close>

lemma u8_lt: "unat (w :: u8) < 256"
  using unsigned_less [of w, where ?'a = nat] by simp

lemma unat_len8: "n < 256 \<Longrightarrow> unat (of_nat n :: u8) = n"
  by (simp add: unat_of_nat)

lemma uint_len8: "n < 256 \<Longrightarrow> uint (of_nat n :: u8) = int n"
  by (simp only: uint_nat unat_len8)

lemma u8_inc: "unat (w :: u8) < 255 \<Longrightarrow> unat (w + 1) = unat w + 1"
  by (simp add: unat_word_ariths)

lemma u8_dec: "0 < unat (w :: u8) \<Longrightarrow> unat (w - 1) = unat w - 1"
  by (simp add: unat_minus_one unat_gt_0)

lemma u8_zero: "(w = (0 :: u8)) = (unat w = 0)"
  by (simp add: unat_eq_0)

lemma u8_max: "(w = (255 :: u8)) = (unat w = 255)"
  by (simp add: word_unat_eq_iff)

lemma tail_window_word:
  fixes w vs :: u8
  assumes "vs < w" and "vs = 0 \<longrightarrow> w \<noteq> 255"
  shows "uint (w - (vs - 1)) = uint w - (uint vs - 1)"
proof (cases "vs = 0")
  case True
  with assms(2) have "unat w < 255"
    using u8_lt [of w] by (simp add: u8_max)
  then have "unat (w + 1) = unat w + 1"
    by (rule u8_inc)
  with True show ?thesis
    unfolding uint_nat by simp
next
  case False
  then have a: "unat (vs - 1) = unat vs - 1" and pos: "0 < unat vs"
    by (simp_all add: u8_dec u8_zero)
  have "vs - 1 \<le> w"
    using assms(1) a by (simp add: word_less_nat_alt word_le_nat_alt)
  then have "unat (w - (vs - 1)) = unat w - unat (vs - 1)"
    by (rule unat_sub)
  with a pos assms(1) show ?thesis
    unfolding uint_nat word_less_nat_alt by simp
qed

lemma tail_window:
  fixes vs :: u8
  assumes "n < 256" and "unat vs < n" and "vs = 0 \<longrightarrow> n < 255"
  shows "uint (of_nat n - (vs - 1) :: u8) = int n - (uint vs - 1)"
proof -
  have n: "uint (of_nat n :: u8) = int n"
    using assms(1) by (rule uint_len8)
  have "vs < (of_nat n :: u8)"
    using assms(1,2) by (simp add: word_less_nat_alt unat_len8)
  moreover have "vs = 0 \<longrightarrow> (of_nat n :: u8) \<noteq> 255"
    using assms(1,3) by (auto simp: u8_max unat_len8)
  ultimately have "uint (of_nat n - (vs - 1) :: u8) = uint (of_nat n :: u8) - (uint vs - 1)"
    by (rule tail_window_word)
  with n show ?thesis
    by simp
qed

subsection \<open>Editing the value\<close>

lemma typeChar_returns:
  assumes "editModeEnabled m"
    and "length (itemValue m) < 256 \<or> cursor m < of_nat (length (itemValue m))"
  shows "\<not> isl (typeChar ch m) \<and> fst (projr (typeChar ch m)) \<and>
         cursor (snd (projr (typeChar ch m))) = cursor m + 1"
proof (cases "cursor m < of_nat (length (itemValue m))")
  case True
  with assms(1) show ?thesis
    by (simp add: typeChar_def display_defs Let_def)
next
  case False
  with assms(2) have "length (itemValue m) < 256"
    by simp
  with assms(1) False show ?thesis
    by (simp add: typeChar_def display_defs Let_def unat_len8)
qed

lemma typeChar_value:
  assumes "editModeEnabled m" and "length (itemValue m) < 256"
  shows "itemValue (snd (projr (typeChar ch m))) =
    take (unat (cursor m)) (itemValue m) @ [ch] @ drop (unat (cursor m)) (itemValue m)"
proof -
  let ?n = "length (itemValue m)"
  have cmp: "(cursor m < (of_nat ?n :: u8)) = (unat (cursor m) < ?n)"
    using assms(2) by (simp add: word_less_nat_alt unat_len8)
  show ?thesis
    using assms cmp
    by (simp add: typeChar_def display_defs Let_def substring_def concat2_def concat3_def
        unat_len8)
qed

lemma typeChar_overrun:
  assumes "editModeEnabled m" and "256 \<le> length (itemValue m)"
    and "\<not> cursor m < of_nat (length (itemValue m))"
  shows "typeChar ch m = Inl HeapOverrun"
proof -
  have "unat (of_nat (length (itemValue m)) :: u8) < 256"
    by (rule u8_lt)
  with assms(2) have "unat (of_nat (length (itemValue m)) :: u8) < length (itemValue m)"
    by linarith
  with assms(1,3) show ?thesis
    by (simp add: typeChar_def Let_def)
qed

lemma backspace_edit:
  assumes "editModeEnabled m" and "0 < unat (cursor m)" and "unat (cursor m) \<le> length (itemValue m)"
  shows "fst (backspace m) \<and>
     itemValue (snd (backspace m)) =
       take (unat (cursor m) - 1) (itemValue m) @ drop (unat (cursor m)) (itemValue m) \<and>
     cursor (snd (backspace m)) = cursor m - 1"
proof -
  have "cursor m \<noteq> 0" using assms(2) by (simp add: u8_zero)
  moreover have "itemValue m \<noteq> []" using assms(2,3) by auto
  ultimately show ?thesis
    using assms by (simp add: backspace_def display_defs Let_def remove_def)
qed

lemma process_printable: "isprint ch \<Longrightarrow> process ch m = typeChar ch m"
  by (simp add: process_def)

lemma process_BACKSPACE: "process BACKSPACE m = Inr (backspace m)"
  by (simp add: process_def isprint_def BACKSPACE_def ENTER_def BACK_def UP_def DOWN_def
      LEFT_def RIGHT_def)

lemma backspace_empty_fix:
  "editModeEnabled m \<Longrightarrow> itemValue m = [] \<Longrightarrow> ((snd \<circ> backspace) ^^ n) m = m"
  by (induction n) (simp_all add: backspace_def)

section \<open>Entering edit mode\<close>

text \<open>
  Claim C4, as amended. The claim says that for every value \<^verbatim>\<open>enter\<close> sets the cursor
  to the length of the value. The cursor is a \<^verbatim>\<open>uint8_t\<close>, so this holds for values
  shorter than 256 characters only (see C10). For those: entering edit mode from the
  viewing state returns true, keeps the value, sets the cursor to the length of the
  value, and, when the cursor is greater than the view size, sets the view to
  \<open>length - (viewSize - 1)\<close>, otherwise leaves it; the row is drawn from that view
  before the edit-mode flag is set and the blinker is placed. (With a view size of 0 the
  tail window \<open>length + 1\<close> needs the length to be below 255.)
\<close>

theorem enter_jumps_to_end:
  assumes "\<not> editModeEnabled m" and "length (itemValue m) < 256"
    and "getViewSize m = 0 \<longrightarrow> length (itemValue m) < 255"
  shows "fst (enter m) \<and> editModeEnabled (snd (enter m)) \<and>
     itemValue (snd (enter m)) = itemValue m \<and>
     unat (cursor (snd (enter m))) = length (itemValue m) \<and>
     (if unat (getViewSize m) < length (itemValue m)
      then uint (view (snd (enter m))) = int (length (itemValue m)) - (uint (getViewSize m) - 1)
      else view (snd (enter m)) = view m) \<and>
     effects (snd (enter m)) = effects m @
       [DrawItem (itemText m) (CHR '':'')
          (substring (itemValue m) (unat (view (snd (enter m)))) (unat (getViewSize m))),
        SetEditModeEnabled True, ResetBlinker (blinkerPosition (snd (enter m))), DrawBlinker]"
proof -
  let ?n = "length (itemValue m)"
  have vs: "getViewSize (m\<lparr>cursor := of_nat ?n\<rparr>) = getViewSize m"
    by (simp add: getViewSize_def)
  have cmp: "(getViewSize m < (of_nat ?n :: u8)) = (unat (getViewSize m) < ?n)"
    using assms(2) by (simp add: word_less_nat_alt unat_len8)
  show ?thesis
  proof (cases "unat (getViewSize m) < ?n")
    case True
    have "uint (of_nat ?n - (getViewSize m - 1) :: u8) = int ?n - (uint (getViewSize m) - 1)"
      using assms(2) True assms(3) by (rule tail_window)
    then show ?thesis
      using assms(1,2) True cmp
      by (simp add: enter_def display_defs Let_def vs unat_len8 getViewSize_def)
  next
    case False
    then show ?thesis
      using assms(1,2) cmp
      by (simp add: enter_def display_defs Let_def vs unat_len8 getViewSize_def)
  qed
qed

text \<open>
  Scenario B of the specification: label \<open>''Name''\<close> on 12 columns gives a view size
  of 5; the value \<open>''ABCDEFG''\<close> is entered with cursor 7 and view 3, and the row
  shows \<open>''DEFG''\<close>.
\<close>

theorem enter_jumps_to_end_witness:
  "(let m' = snd (enter (ItemInput ''Name'' ''ABCDEFG'' None 12 0)) in
     getViewSize m' = 5 \<and> cursor m' = 7 \<and> view m' = 3 \<and>
     effects m' = [DrawItem ''Name'' (CHR '':'') ''DEFG'', SetEditModeEnabled True,
                   ResetBlinker 10, DrawBlinker])"
  using enter_jumps_to_end [of "ItemInput ''Name'' ''ABCDEFG'' None 12 0"]
  by code_simp

text \<open>
  The claim C4 as stated fails for a value of 256 characters: the cursor becomes 0.
\<close>

theorem enter_cursor_counterexample:
  "\<not> editModeEnabled (ItemInput ''Name'' (replicate 256 (CHR ''A'')) None 12 0) \<and>
   unat (cursor (snd (enter (ItemInput ''Name'' (replicate 256 (CHR ''A'')) None 12 0))))
     \<noteq> length (replicate 256 (CHR ''A''))"
  by (simp add: ItemInput_def enter_def display_defs Let_def getViewSize_def)

text \<open>
  Claim C10. \<^verbatim>\<open>cursor\<close> is a \<^verbatim>\<open>uint8_t\<close> and \<^verbatim>\<open>enter\<close> stores the length of the
  value in it: after \<^verbatim>\<open>enter\<close> from the viewing state the cursor is the length modulo
  256, which differs from the length for every value of 256 characters or more.
\<close>

theorem enter_cursor_mod_256:
  assumes "\<not> editModeEnabled m"
  shows "unat (cursor (snd (enter m))) = length (itemValue m) mod 256 \<and>
     (256 \<le> length (itemValue m) \<longrightarrow> unat (cursor (snd (enter m))) \<noteq> length (itemValue m))"
proof -
  have stored: "unat (cursor (snd (enter m))) = length (itemValue m) mod 256"
    using assms by (simp add: enter_def display_defs Let_def unat_of_nat)
  have "length (itemValue m) mod 256 < 256"
    by simp
  with stored show ?thesis
    by auto
qed

theorem enter_cursor_mod_256_witness:
  "unat (cursor (snd (enter (ItemInput ''Name'' (replicate 300 (CHR ''A'')) None 16 0)))) = 44"
  using enter_cursor_mod_256 [of "ItemInput ''Name'' (replicate 300 (CHR ''A'')) None 16 0"]
  by (simp add: ItemInput_def)

section \<open>Leaving edit mode\<close>

text \<open>
  Claim C5. \<^verbatim>\<open>back\<close> in edit mode returns true. Its effects are, in this order: the
  blinker is cleared, the edit-mode flag is cleared, the row is drawn, and then the
  callback, if there is one, is called with the value. The row that is drawn starts at
  index 0 of the value, so \<^verbatim>\<open>view\<close> (and with it \<^verbatim>\<open>cursor\<close>) was reset before the
  drawing. The value is unchanged. Without a callback everything but the call happens.
\<close>

theorem back_effects_in_order:
  "editModeEnabled m \<Longrightarrow>
     backCmd m =
       (True, m\<lparr>view := 0, cursor := 0, editModeEnabled := False,
                effects := effects m @
                  [ClearBlinker, SetEditModeEnabled False,
                   DrawItem (itemText m) (CHR '':'') (take (unat (getViewSize m)) (itemValue m))] @
                  (case callback m of None \<Rightarrow> [] | Some f \<Rightarrow> [Callback f (itemValue m)])\<rparr>)"
  by (simp add: backCmd_def display_defs getViewSize_def substring_def Let_def split: option.split)

theorem back_effects_in_order_witness:
  "(let m = snd (enter (ItemInput ''Name'' ''ABCDEFG'' (Some 7) 12 0)) in
      editModeEnabled m \<and> fst (backCmd m) \<and>
      effects (snd (backCmd m)) = effects m @
        [ClearBlinker, SetEditModeEnabled False, DrawItem ''Name'' (CHR '':'') ''ABCDE'',
         Callback 7 ''ABCDEFG'']) \<and>
   (let m = snd (enter (ItemInput ''Name'' ''ABCDEFG'' None 12 0)) in
      editModeEnabled m \<and> fst (backCmd m) \<and>
      effects (snd (backCmd m)) = effects m @
        [ClearBlinker, SetEditModeEnabled False, DrawItem ''Name'' (CHR '':'') ''ABCDE''])"
  using back_effects_in_order [of "snd (enter (ItemInput ''Name'' ''ABCDEFG'' (Some 7) 12 0))"]
    back_effects_in_order [of "snd (enter (ItemInput ''Name'' ''ABCDEFG'' None 12 0))"]
  by code_simp

text \<open>
  Claim C9. \<^verbatim>\<open>enter\<close> from the viewing state followed at once by \<^verbatim>\<open>back\<close>: both
  return true, the value is the one before, and exactly one callback invocation is added
  to the effects, with the original value as its argument. (The item has a callback
  \<open>f\<close>; with \<^verbatim>\<open>NULL\<close> nothing is called.)
\<close>

theorem enter_back_roundtrip:
  "\<not> editModeEnabled m \<Longrightarrow> callback m = Some f \<Longrightarrow>
     fst (enter m) \<and> fst (backCmd (snd (enter m))) \<and>
     itemValue (snd (backCmd (snd (enter m)))) = itemValue m \<and>
     callbacks (effects (snd (backCmd (snd (enter m))))) =
       callbacks (effects m) @ [(f, itemValue m)]"
  by (simp add: enter_def backCmd_def display_defs Let_def callbacks_append)

theorem enter_back_roundtrip_witness:
  "(let m = ItemInput ''Name'' ''HELLO'' (Some 7) 16 0 in
      \<not> editModeEnabled m \<and> callback m = Some 7 \<and>
      itemValue (snd (backCmd (snd (enter m)))) = ''HELLO'' \<and>
      callbacks (effects (snd (backCmd (snd (enter m))))) = [(7, ''HELLO'')])"
  using enter_back_roundtrip [of "ItemInput ''Name'' ''HELLO'' (Some 7) 16 0" 7]
  by code_simp

section \<open>Operations outside their state, and at the boundaries\<close>

text \<open>
  Claim C7. Outside edit mode \<^verbatim>\<open>typeChar\<close>, \<^verbatim>\<open>left\<close>, \<^verbatim>\<open>right\<close>,
  \<^verbatim>\<open>backspace\<close>, \<^verbatim>\<open>clear\<close> and \<^verbatim>\<open>back\<close> return false, and in edit mode
  \<^verbatim>\<open>enter\<close> returns false; the whole state, the list of effects included (so no
  callback is invoked), is the one before.
\<close>

theorem outside_valid_state_unhandled:
  "(\<not> editModeEnabled m \<longrightarrow>
      typeChar c m = Inr (False, m) \<and> left m = (False, m) \<and> right m = (False, m) \<and>
      backspace m = (False, m) \<and> clear m = (False, m) \<and> backCmd m = (False, m)) \<and>
   (editModeEnabled m \<longrightarrow> enter m = (False, m))"
  by (simp add: typeChar_def left_def right_def backspace_def clear_def backCmd_def enter_def)

theorem outside_valid_state_unhandled_witness:
  "(let m = ItemInput ''Name'' ''AB'' (Some 1) 16 0 in
      typeChar (CHR ''x'') m = Inr (False, m) \<and> left m = (False, m) \<and> right m = (False, m) \<and>
      backspace m = (False, m) \<and> clear m = (False, m) \<and> backCmd m = (False, m)) \<and>
   (let m = (ItemInput ''Name'' ''AB'' (Some 1) 16 0)\<lparr>editModeEnabled := True\<rparr> in
      enter m = (False, m))"
  using outside_valid_state_unhandled [of "ItemInput ''Name'' ''AB'' (Some 1) 16 0" "CHR ''x''"]
    outside_valid_state_unhandled
      [of "(ItemInput ''Name'' ''AB'' (Some 1) 16 0)\<lparr>editModeEnabled := True\<rparr>" "CHR ''x''"]
  by (simp add: ItemInput_def)

text \<open>
  Claim C8. In edit mode \<^verbatim>\<open>left\<close> with the cursor at 0, \<^verbatim>\<open>right\<close> with the cursor
  at the length of the value, and \<^verbatim>\<open>backspace\<close> with the cursor at 0 or an empty value
  return true and leave the whole state as it was. On an empty value any number of
  \<^verbatim>\<open>backspace\<close> calls leaves the state as it was, and the next one returns true again.
\<close>

theorem boundary_noops_handled:
  "editModeEnabled m \<Longrightarrow>
     (cursor m = 0 \<longrightarrow> left m = (True, m)) \<and>
     (unat (cursor m) = length (itemValue m) \<longrightarrow> right m = (True, m)) \<and>
     (cursor m = 0 \<or> itemValue m = [] \<longrightarrow> backspace m = (True, m)) \<and>
     (itemValue m = [] \<longrightarrow>
        (\<forall>n. ((snd \<circ> backspace) ^^ n) m = m \<and> fst (backspace (((snd \<circ> backspace) ^^ n) m))))"
  by (auto simp: left_def right_def backspace_def backspace_empty_fix)

theorem boundary_noops_handled_witness:
  "(let m = snd (enter (ItemInput ''Name'' [] None 16 0)) in
      editModeEnabled m \<and> cursor m = 0 \<and> unat (cursor m) = length (itemValue m) \<and>
      left m = (True, m) \<and> right m = (True, m) \<and> backspace m = (True, m) \<and>
      ((snd \<circ> backspace) ^^ 3) m = m \<and> fst (backspace (((snd \<circ> backspace) ^^ 3) m)))"
  using boundary_noops_handled [of "snd (enter (ItemInput ''Name'' [] None 16 0))"]
  by (simp add: ItemInput_def enter_def display_defs Let_def getViewSize_def
        constrainBlinkerPosition_def constrain_def)

section \<open>The view window\<close>

text \<open>
  Claim C1 fails on the code. The claim is the invariant the source itself documents
  (the comment on \<^verbatim>\<open>cursor\<close>: "Always in range [view, view + viewSize - 1]"; the
  comment on \<^verbatim>\<open>view\<close>: "When length of value < viewSize this index should be 0"), and
  two operations break it.

  \<^verbatim>\<open>enter\<close> scrolls only when \<^verbatim>\<open>cursor > viewSize\<close>, where \<^verbatim>\<open>right\<close> and
  \<^verbatim>\<open>typeChar\<close> test \<^verbatim>\<open>cursor > view + viewSize - 1\<close>: \<^verbatim>\<open>ENTER\<close> on \<open>''ABCDE''\<close>
  with a view size of 5 gives cursor 5 and view 0, one past the window, and typing
  \<open>F\<close> then gives cursor 6 and view 1 on a value of six characters, so that
  \<open>cursor \<le> view + viewSize - 1\<close> fails although the value is longer than the view
  size.

  No operation moves the view back when the value shrinks: \<^verbatim>\<open>ENTER\<close> on
  \<open>''ABCDEF''\<close> and two \<^verbatim>\<open>BACKSPACE\<close> commands leave four characters with the view
  at 2, not 0.
\<close>

theorem window_invariant_broken:
  "editModeEnabled entered_at_width \<and> getViewSize entered_at_width = 5 \<and>
   itemValue entered_at_width = ''ABCDE'' \<and>
   cursor entered_at_width = 5 \<and> view entered_at_width = 0 \<and> \<not> window_ok entered_at_width \<and>
   process (CHR ''F'') entered_at_width = typeChar (CHR ''F'') entered_at_width \<and>
   \<not> isl (typeChar (CHR ''F'') entered_at_width) \<and>
   fst (projr (typeChar (CHR ''F'') entered_at_width)) \<and>
   editModeEnabled typed_past_width \<and> getViewSize typed_past_width = 5 \<and>
   itemValue typed_past_width = ''ABCDEF'' \<and> cursor typed_past_width = 6 \<and>
   view typed_past_width = 1 \<and> \<not> window_ok typed_past_width \<and>
   \<not> spec_window_inv typed_past_width \<and>
   editModeEnabled shrunk_below_width \<and> getViewSize shrunk_below_width = 5 \<and>
   itemValue shrunk_below_width = ''ABCD'' \<and> cursor shrunk_below_width = 4 \<and>
   view shrunk_below_width = 2 \<and> \<not> spec_window_inv shrunk_below_width"
  by code_simp

section \<open>Typing and deleting\<close>

text \<open>
  Claim C6, as amended. In edit mode, \<^verbatim>\<open>process\<close> routes a printable character to
  \<^verbatim>\<open>typeChar\<close>, which returns true; for a value shorter than 256 characters the new
  value is the old prefix of length \<^verbatim>\<open>cursor\<close>, the character, and the old suffix from
  \<^verbatim>\<open>cursor\<close>; the cursor advances by 1 unless it is 255. \<^verbatim>\<open>backspace\<close> with
  \<open>0 < cursor \<le> length\<close> returns true, removes exactly the character at index
  \<open>cursor - 1\<close> and decrements the cursor.

  \<^verbatim>\<open>typeChar\<close> returns, with true and the cursor advanced, also for a longer value
  when the cursor is below the truncated length (the insert branch); in the one case
  left, the append branch on a value of 256 characters or more, it overruns its buffer
  (\<open>typeChar_overrun\<close>).
\<close>

theorem typeChar_backspace_edit:
  assumes "editModeEnabled m"
  shows "(isprint ch \<longrightarrow> process ch m = typeChar ch m) \<and>
     (length (itemValue m) < 256 \<or> cursor m < of_nat (length (itemValue m)) \<longrightarrow>
        \<not> isl (typeChar ch m) \<and> fst (projr (typeChar ch m)) \<and>
        (cursor m \<noteq> 255 \<longrightarrow>
           unat (cursor (snd (projr (typeChar ch m)))) = unat (cursor m) + 1)) \<and>
     (length (itemValue m) < 256 \<longrightarrow>
        itemValue (snd (projr (typeChar ch m))) =
          take (unat (cursor m)) (itemValue m) @ [ch] @ drop (unat (cursor m)) (itemValue m)) \<and>
     process BACKSPACE m = Inr (backspace m) \<and>
     (0 < unat (cursor m) \<and> unat (cursor m) \<le> length (itemValue m) \<longrightarrow>
        fst (backspace m) \<and>
        itemValue (snd (backspace m)) =
          take (unat (cursor m) - 1) (itemValue m) @ drop (unat (cursor m)) (itemValue m) \<and>
        unat (cursor (snd (backspace m))) = unat (cursor m) - 1)"
proof -
  have inc: "cursor m \<noteq> 255 \<longrightarrow> unat (cursor m + 1) = unat (cursor m) + 1"
    using u8_lt [of "cursor m"] by (simp add: u8_max u8_inc)
  have dec: "0 < unat (cursor m) \<longrightarrow> unat (cursor m - 1) = unat (cursor m) - 1"
    by (simp add: u8_dec)
  have ret: "length (itemValue m) < 256 \<or> cursor m < of_nat (length (itemValue m)) \<longrightarrow>
        \<not> isl (typeChar ch m) \<and> fst (projr (typeChar ch m)) \<and>
        cursor (snd (projr (typeChar ch m))) = cursor m + 1"
    using typeChar_returns [OF assms, of ch] by simp
  show ?thesis
    using assms inc dec ret
    by (simp add: process_printable process_BACKSPACE typeChar_value backspace_edit)
qed

text \<open>
  Scenario C of the specification: \<open>''HELLO''\<close> with the cursor at 2 becomes
  \<open>''HLLO''\<close> with the cursor at 1; typing \<open>Y\<close> there instead gives
  \<open>''HEYLLO''\<close> with the cursor at 3.
\<close>

theorem typeChar_backspace_edit_witness:
  "(let m = snd (left (snd (left (snd (left (snd (enter
              (ItemInput ''Name'' ''HELLO'' None 16 0))))))))
    in editModeEnabled m \<and> itemValue m = ''HELLO'' \<and> cursor m = 2 \<and>
       process BACKSPACE m = Inr (backspace m) \<and>
       itemValue (snd (backspace m)) = ''HLLO'' \<and>
       cursor (snd (backspace m)) = 1 \<and>
       isprint (CHR ''Y'') \<and> \<not> isl (process (CHR ''Y'') m) \<and>
       fst (projr (process (CHR ''Y'') m)) \<and>
       itemValue (snd (projr (process (CHR ''Y'') m))) = ''HEYLLO'' \<and>
       cursor (snd (projr (process (CHR ''Y'') m))) = 3)"
  using typeChar_backspace_edit
    [of "snd (left (snd (left (snd (left (snd (enter
              (ItemInput ''Name'' ''HELLO'' None 16 0))))))))" "CHR ''Y''"]
  by code_simp

text \<open>
  The claim C6 as stated fails for a long value: \<^verbatim>\<open>typeChar\<close> cuts the value at its
  length modulo 256. A value of 258 characters, entered (cursor 2) and moved left once
  (cursor 1), is three characters long after one character is typed; the character goes
  through the insert branch, which stays inside its buffers.
\<close>

theorem typeChar_long_value_counterexample:
  "editModeEnabled long_value_moved \<and> isprint (CHR ''X'') \<and>
   length (itemValue long_value_moved) = 258 \<and> cursor long_value_moved = 1 \<and>
   \<not> isl (typeChar (CHR ''X'') long_value_moved) \<and>
   itemValue (snd (projr (typeChar (CHR ''X'') long_value_moved))) = ''AXA'' \<and>
   itemValue (snd (projr (typeChar (CHR ''X'') long_value_moved))) \<noteq>
     take (unat (cursor long_value_moved)) (itemValue long_value_moved) @ [CHR ''X''] @
     drop (unat (cursor long_value_moved)) (itemValue long_value_moved)"
  by code_simp

section \<open>Clearing the value\<close>

text \<open>
  Claim C2 fails on the code. \<^verbatim>\<open>clear\<close> empties the value and puts the blinker at
  the first column of the value, but assigns neither \<^verbatim>\<open>cursor\<close> nor \<^verbatim>\<open>view\<close>:
  after \<^verbatim>\<open>ENTER\<close> on \<open>''ABCDEFG''\<close> (view size 5) and \<^verbatim>\<open>CLEAR\<close>, the value is
  empty, the cursor is still 7 and the view is still 3. A character typed then is
  appended, and the cursor becomes 8 on a value of length 1.
\<close>

theorem clear_keeps_cursor_and_view:
  "editModeEnabled entered_at_tail \<and> getViewSize entered_at_tail = 5 \<and>
   cursor entered_at_tail = 7 \<and> view entered_at_tail = 3 \<and>
   process CLEAR entered_at_tail = Inr (clear entered_at_tail) \<and> fst (clear entered_at_tail) \<and>
   itemValue (snd (clear entered_at_tail)) = [] \<and>
   cursor (snd (clear entered_at_tail)) = 7 \<and> view (snd (clear entered_at_tail)) = 3 \<and>
   blinkerPosition (snd (clear entered_at_tail)) = 6 \<and>
   \<not> unat (cursor (snd (clear entered_at_tail))) \<le> length (itemValue (snd (clear entered_at_tail))) \<and>
   view (snd (clear entered_at_tail)) \<noteq> 0 \<and>
   \<not> isl (process (CHR ''X'') (snd (clear entered_at_tail))) \<and>
   itemValue (snd (projr (process (CHR ''X'') (snd (clear entered_at_tail))))) = ''X'' \<and>
   cursor (snd (projr (process (CHR ''X'') (snd (clear entered_at_tail))))) = 8"
  by code_simp

section \<open>The blinker position\<close>

text \<open>
  Claim C3 fails on the code. \<^verbatim>\<open>enter\<close> computes the blinker position from
  \<^verbatim>\<open>cursor - view\<close>; \<^verbatim>\<open>left\<close>, \<^verbatim>\<open>right\<close>, \<^verbatim>\<open>backspace\<close> and \<^verbatim>\<open>typeChar\<close>
  move the stored position by one. \<^verbatim>\<open>enter\<close> scrolls only when
  \<^verbatim>\<open>cursor > viewSize\<close>, so a value exactly as long as the view size is entered with
  the cursor one past the window and the blinker clamped to \<open>maxCols - 2\<close>. After
  \<^verbatim>\<open>ENTER\<close> on \<open>''ABCDE''\<close> (view size 5, 12 columns) the blinker is at column 10,
  as the formula says; after \<^verbatim>\<open>LEFT\<close> the cursor is 4, the view 0, the blinker at
  column 9, and the formula gives 10.

  The cursor that \<^verbatim>\<open>clear\<close> leaves behind has the same effect: after \<^verbatim>\<open>ENTER\<close> on
  \<open>''ABC''\<close>, \<^verbatim>\<open>CLEAR\<close>, a typed \<open>X\<close> and \<^verbatim>\<open>LEFT\<close>, the cursor is 3 on the value
  \<open>''X''\<close>, the blinker is at column 6, and the formula gives 7.
\<close>

theorem caret_after_left_diverges:
  "editModeEnabled entered_at_width \<and> getViewSize entered_at_width = 5 \<and>
   cursor entered_at_width = 5 \<and> view entered_at_width = 0 \<and> \<not> window_ok entered_at_width \<and>
   blinkerPosition entered_at_width = 10 \<and> spec_caret entered_at_width = 10 \<and>
   process LEFT entered_at_width = Inr (left entered_at_width) \<and> fst (left entered_at_width) \<and>
   cursor (snd (left entered_at_width)) = 4 \<and> view (snd (left entered_at_width)) = 0 \<and>
   blinkerPosition (snd (left entered_at_width)) = 9 \<and>
   spec_caret (snd (left entered_at_width)) = 10 \<and>
   editModeEnabled cleared_then_typed \<and> itemValue cleared_then_typed = ''X'' \<and>
   cursor cleared_then_typed = 4 \<and> view cleared_then_typed = 0 \<and>
   blinkerPosition cleared_then_typed = 7 \<and> spec_caret cleared_then_typed = 7 \<and>
   cursor (snd (left cleared_then_typed)) = 3 \<and> view (snd (left cleared_then_typed)) = 0 \<and>
   blinkerPosition (snd (left cleared_then_typed)) = 6 \<and>
   spec_caret (snd (left cleared_then_typed)) = 7"
  by code_simp

end
